theory Spec2Isabelle
  imports Main "HOL-Library.Word"
begin

section \<open>The maxstdio shim: data model\<close>

text \<open>
  The sources are \<^verbatim>\<open>ioutils/maxstdio/maxstdio.c\<close> and its header: two C functions,
  each a single \<^verbatim>\<open>return\<close> of one C runtime call.
  \<^verbatim>\<open>
  int CGetMaxSTDIO()            { return _getmaxstdio(); }
  int CSetMaxSTDIO(int new_max) { return _setmaxstdio(new_max); }
  \<close>
  A C \<^verbatim>\<open>int\<close> on the targets that provide these runtime calls is a 32-bit
  two's complement value; \<open>sint\<close> reads its signed value.
\<close>

type_synonym c_int = "32 word"

text \<open>
  The two runtime entry points \<^verbatim>\<open>_getmaxstdio\<close> and \<^verbatim>\<open>_setmaxstdio\<close> belong to the
  platform's C runtime, not to the sources. The shim is therefore modelled over an
  arbitrary runtime: a pair of functions on a runtime state \<open>'st\<close>, each returning the
  \<^verbatim>\<open>int\<close> it yields and the state it leaves. (An identifier cannot start with an
  underscore here, so the leading underscore of the C names is dropped.) Nothing is
  assumed about either function except that a call returns.
\<close>

record 'st crt =
  getmaxstdio :: "'st \<Rightarrow> c_int \<times> 'st"
  setmaxstdio :: "c_int \<Rightarrow> 'st \<Rightarrow> c_int \<times> 'st"

text \<open>
  A call of the runtime, as it appears in a function body, and the bodies themselves:
  a body either returns a value or calls the runtime and continues with the
  \<^verbatim>\<open>int\<close> the call yielded.
\<close>

datatype call = Call_getmaxstdio | Call_setmaxstdio c_int

datatype 'a prog = Return 'a | Invoke call "c_int \<Rightarrow> 'a prog"

section \<open>The two functions of \<^verbatim>\<open>maxstdio.c\<close>\<close>

text \<open>\<^verbatim>\<open>int CGetMaxSTDIO() { return _getmaxstdio(); }\<close>\<close>

definition CGetMaxSTDIO :: "c_int prog" where
  "CGetMaxSTDIO = Invoke Call_getmaxstdio Return"

text \<open>\<^verbatim>\<open>int CSetMaxSTDIO(int new_max) { return _setmaxstdio(new_max); }\<close>\<close>

definition CSetMaxSTDIO :: "c_int \<Rightarrow> c_int prog" where
  "CSetMaxSTDIO new_max = Invoke (Call_setmaxstdio new_max) Return"

section \<open>Running a body on a runtime\<close>

text \<open>
  \<open>perform\<close> dispatches one call to the runtime. \<open>run\<close> executes a body from a runtime
  state and gives the value returned, the state left behind, and the runtime calls made,
  in order.
\<close>

fun perform :: "'st crt \<Rightarrow> call \<Rightarrow> 'st \<Rightarrow> c_int \<times> 'st" where
  "perform p Call_getmaxstdio s = getmaxstdio p s"
| "perform p (Call_setmaxstdio n) s = setmaxstdio p n s"

primrec run :: "'st crt \<Rightarrow> 'a prog \<Rightarrow> 'st \<Rightarrow> 'a \<times> 'st \<times> call list" where
  "run p (Return v) = (\<lambda>s. (v, s, []))"
| "run p (Invoke c k) =
     (\<lambda>s. case perform p c s of
             (r, s') \<Rightarrow> (case run p (k r) s' of (v, s'', cs) \<Rightarrow> (v, s'', c # cs)))"

definition result :: "'a \<times> 'st \<times> call list \<Rightarrow> 'a" where
  "result x = fst x"

definition final :: "'a \<times> 'st \<times> call list \<Rightarrow> 'st" where
  "final x = fst (snd x)"

definition trace :: "'a \<times> 'st \<times> call list \<Rightarrow> call list" where
  "trace x = snd (snd x)"

section \<open>The runtime as the specification describes it\<close>

text \<open>
  Modelled from the spec: the process-wide state behind \<^verbatim>\<open>_getmaxstdio\<close> and
  \<^verbatim>\<open>_setmaxstdio\<close>, which the sources do not contain. The specification names one
  piece of state, the per-process maximum-open-streams counter, owned by the C runtime.
  The record is extensible: whatever else the process holds is its \<open>more\<close> part.
\<close>

record proc_state =
  max_streams :: c_int

text \<open>
  Modelled from the spec: \<^verbatim>\<open>_getmaxstdio\<close>, missing from the sources. It "returns the
  process's current ceiling on simultaneously open stream handles" and has "no
  observable side effects".
\<close>

definition spec_getmaxstdio :: "'a proc_state_scheme \<Rightarrow> c_int \<times> 'a proc_state_scheme" where
  "spec_getmaxstdio s = (max_streams s, s)"

text \<open>
  Modelled from the spec: \<^verbatim>\<open>_setmaxstdio\<close>, missing from the sources. It "installs
  newMax as the new ceiling and returns the ceiling that was in effect immediately
  beforehand"; "platform-internal bounds checking may silently clamp or reject
  out-of-range values". The bounds check is the parameter \<open>bounds\<close>: \<open>Some m\<close> is the
  value installed for a request (the request itself, or its clamped value), \<open>None\<close> a
  rejected request, which leaves the counter as it was.
\<close>

definition spec_setmaxstdio ::
  "(c_int \<Rightarrow> c_int option) \<Rightarrow> c_int \<Rightarrow> 'a proc_state_scheme \<Rightarrow> c_int \<times> 'a proc_state_scheme" where
  "spec_setmaxstdio bounds new_max s =
     (max_streams s,
      case bounds new_max of None \<Rightarrow> s | Some m \<Rightarrow> s\<lparr>max_streams := m\<rparr>)"

text \<open>
  Modelled from the spec: the C runtime as a whole, missing from the sources, made of
  the two entry points above.
\<close>

definition spec_crt :: "(c_int \<Rightarrow> c_int option) \<Rightarrow> 'a proc_state_scheme crt" where
  "spec_crt bounds = \<lparr>getmaxstdio = spec_getmaxstdio, setmaxstdio = spec_setmaxstdio bounds\<rparr>"

text \<open>
  Modelled from the spec: the bounds check of its test scenario, missing from the
  sources, a runtime that clamps at "max 2048 on some CRT versions". Signed comparison,
  since the request is a signed integer.
\<close>

definition clamp_2048 :: "c_int \<Rightarrow> c_int option" where
  "clamp_2048 n = Some (if 2048 <s n then 2048 else n)"

text \<open>
  A runtime that reports the same integer \<open>v\<close> from both entry points and leaves its
  state as it was: used to evaluate the wrappers where the runtime reports a zero or
  negative value.
\<close>

definition reporting_crt :: "c_int \<Rightarrow> nat crt" where
  "reporting_crt v = \<lparr>getmaxstdio = (\<lambda>s. (v, s)), setmaxstdio = (\<lambda>n s. (v, s))\<rparr>"

section \<open>Runtimes whose calls need not return\<close>

text \<open>
  A \<open>crt\<close> call always returns, since its fields are functions. Whether a body returns
  is only a question on a runtime whose calls may fail to: \<open>None\<close> is a call that does
  not come back (the runtime ends the process, or hangs). \<open>prun\<close> runs the same bodies
  on such a runtime; a body returns only if every call it makes does.
\<close>

record 'st pcrt =
  pgetmaxstdio :: "'st \<Rightarrow> (c_int \<times> 'st) option"
  psetmaxstdio :: "c_int \<Rightarrow> 'st \<Rightarrow> (c_int \<times> 'st) option"

fun pperform :: "'st pcrt \<Rightarrow> call \<Rightarrow> 'st \<Rightarrow> (c_int \<times> 'st) option" where
  "pperform p Call_getmaxstdio s = pgetmaxstdio p s"
| "pperform p (Call_setmaxstdio n) s = psetmaxstdio p n s"

primrec prun :: "'st pcrt \<Rightarrow> 'a prog \<Rightarrow> 'st \<Rightarrow> ('a \<times> 'st \<times> call list) option" where
  "prun p (Return v) = (\<lambda>s. Some (v, s, []))"
| "prun p (Invoke c k) =
     (\<lambda>s. case pperform p c s of
             None \<Rightarrow> None
           | Some (r, s') \<Rightarrow>
               (case prun p (k r) s' of
                  None \<Rightarrow> None
                | Some (v, s'', cs) \<Rightarrow> Some (v, s'', c # cs)))"

text \<open>A runtime whose calls always return, seen as one whose calls need not.\<close>

definition returning :: "'st crt \<Rightarrow> 'st pcrt" where
  "returning p =
     \<lparr>pgetmaxstdio = (\<lambda>s. Some (getmaxstdio p s)),
      psetmaxstdio = (\<lambda>n s. Some (setmaxstdio p n s))\<rparr>"

section \<open>Two more runtimes to evaluate the wrappers on\<close>



section \<open>Lemmas on the two bodies\<close>

lemma run_CGetMaxSTDIO:
  "run p CGetMaxSTDIO s = (fst (getmaxstdio p s), snd (getmaxstdio p s), [Call_getmaxstdio])"
  by (simp add: CGetMaxSTDIO_def split: prod.split)

lemma run_CSetMaxSTDIO:
  "run p (CSetMaxSTDIO new_max) s =
     (fst (setmaxstdio p new_max s), snd (setmaxstdio p new_max s), [Call_setmaxstdio new_max])"
  by (simp add: CSetMaxSTDIO_def split: prod.split)



lemma pperform_returning: "pperform (returning p) c s = Some (perform p c s)"
  by (cases c) (simp_all add: returning_def)

text \<open>On a runtime whose calls return, \<open>prun\<close> is \<open>run\<close>: every body returns.\<close>

lemma prun_returning: "prun (returning p) b s = Some (run p b s)"
proof (induction b arbitrary: s)
  case (Return v)
  show ?case by simp
next
  case (Invoke c k)
  obtain r s' where call: "perform p c s = (r, s')"
    by (cases "perform p c s")
  obtain v s'' cs where rest: "run p (k r) s' = (v, s'', cs)"
    by (cases "run p (k r) s'")
  have "prun (returning p) (k r) s' = Some (run p (k r) s')"
    using Invoke.IH [of "k r" s'] by simp
  with call rest show ?case
    by (simp add: pperform_returning)
qed

section \<open>Claims\<close>

text \<open>
  C3. Pass-through of the return value: on every runtime and in every state, the
  integer yielded by \<^verbatim>\<open>_getmaxstdio\<close> is what \<open>CGetMaxSTDIO\<close> returns, and the integer
  yielded by \<^verbatim>\<open>_setmaxstdio\<close> on \<open>new_max\<close> is what \<open>CSetMaxSTDIO new_max\<close> returns: the
  wrapper neither translates, validates nor substitutes it.
\<close>

theorem C3_result_verbatim:
  "result (run p CGetMaxSTDIO s) = fst (getmaxstdio p s) \<and>
   result (run p (CSetMaxSTDIO new_max) s) = fst (setmaxstdio p new_max s)"
  by (simp add: result_def run_CGetMaxSTDIO run_CSetMaxSTDIO)

text \<open>
  C1. On the runtime as the specification describes it, in every process state and for
  every \<open>new_max\<close>, \<open>CSetMaxSTDIO new_max\<close> returns the value that \<open>CGetMaxSTDIO\<close> returns
  when called in that same state instead: the ceiling in effect before the call.
\<close>

theorem C1_set_returns_previous:
  "result (run (spec_crt bounds) (CSetMaxSTDIO new_max) s) =
   result (run (spec_crt bounds) CGetMaxSTDIO s)"
  by (simp add: result_def run_CGetMaxSTDIO run_CSetMaxSTDIO spec_crt_def
      spec_getmaxstdio_def spec_setmaxstdio_def)

text \<open>
  C2. Set-then-get round trip, on the runtime as the specification describes it: when
  the runtime accepts the request \<open>n\<close> and installs \<open>m\<close> for it (\<open>m\<close> is \<open>n\<close> itself, or
  the value the runtime clamps \<open>n\<close> to), \<open>CGetMaxSTDIO\<close> called in the state that
  \<open>CSetMaxSTDIO n\<close> leaves returns \<open>m\<close>.
\<close>

theorem C2_set_then_get:
  "bounds n = Some m \<Longrightarrow>
   result (run (spec_crt bounds) CGetMaxSTDIO
             (final (run (spec_crt bounds) (CSetMaxSTDIO n) s))) = m"
  by (simp add: result_def final_def run_CGetMaxSTDIO run_CSetMaxSTDIO spec_crt_def
      spec_getmaxstdio_def spec_setmaxstdio_def)

theorem C2_set_then_get_witness:
  "clamp_2048 2048 = Some 2048 \<and>
   result (run (spec_crt clamp_2048) CGetMaxSTDIO
             (final (run (spec_crt clamp_2048) (CSetMaxSTDIO 2048)
                       \<lparr>max_streams = 512\<rparr>))) = 2048 \<and>
   clamp_2048 4096 = Some 2048 \<and>
   result (run (spec_crt clamp_2048) CGetMaxSTDIO
             (final (run (spec_crt clamp_2048) (CSetMaxSTDIO 4096)
                       \<lparr>max_streams = 512\<rparr>))) = 2048"
proof -
  have exact: "clamp_2048 2048 = Some 2048"
    by (simp add: clamp_2048_def)
  have clamped: "clamp_2048 4096 = Some 2048"
    by (simp add: clamp_2048_def word_sless_alt)
  show ?thesis
    using exact clamped
      C2_set_then_get [of clamp_2048 2048 2048 "\<lparr>max_streams = 512\<rparr>"]
      C2_set_then_get [of clamp_2048 4096 2048 "\<lparr>max_streams = 512\<rparr>"]
    by simp
qed

text \<open>
  C4. \<open>CGetMaxSTDIO\<close> has no side effect. On the runtime as the specification describes
  it, the call leaves the whole process state, counter included, as it found it, and a
  second call right after the first returns the same value. On every runtime, the only
  runtime call it makes is the getter: it never calls the setter, the one entry point
  that installs a ceiling.
\<close>

theorem C4_get_no_side_effect:
  "final (run (spec_crt bounds) CGetMaxSTDIO s) = s \<and>
   result (run (spec_crt bounds) CGetMaxSTDIO (final (run (spec_crt bounds) CGetMaxSTDIO s))) =
     result (run (spec_crt bounds) CGetMaxSTDIO s) \<and>
   trace (run p CGetMaxSTDIO t) = [Call_getmaxstdio]"
  by (simp add: result_def final_def trace_def run_CGetMaxSTDIO spec_crt_def
      spec_getmaxstdio_def)

text \<open>
  C5. \<open>CSetMaxSTDIO\<close> hands its argument to the runtime unchecked: for every \<open>new_max\<close>,
  on every runtime and in every state, the one call it makes is \<^verbatim>\<open>_setmaxstdio\<close> on
  \<open>new_max\<close> itself, and the value returned and the state left are exactly what that
  call gives. The wrapper neither bounds, clamps nor rejects any value.
\<close>

theorem C5_set_argument_unchecked:
  "trace (run p (CSetMaxSTDIO new_max) s) = [Call_setmaxstdio new_max] \<and>
   (result (run p (CSetMaxSTDIO new_max) s), final (run p (CSetMaxSTDIO new_max) s)) =
     setmaxstdio p new_max s"
  by (simp add: result_def final_def trace_def run_CSetMaxSTDIO)

text \<open>
  C6. \<open>CGetMaxSTDIO\<close> distinguishes no error: whatever integer \<open>v\<close> the runtime reports,
  a negative one or zero as much as any other, the call returns \<open>v\<close> as it is, in the
  state the runtime left. The result is a plain \<^verbatim>\<open>int\<close>; there is no other channel.
\<close>

theorem C6_get_opaque_value:
  "getmaxstdio p s = (v, s') \<Longrightarrow> run p CGetMaxSTDIO s = (v, s', [Call_getmaxstdio])"
  by (simp add: run_CGetMaxSTDIO)

theorem C6_get_opaque_value_witness:
  "getmaxstdio (reporting_crt (- 1)) 0 = (- 1, 0) \<and>
   run (reporting_crt (- 1)) CGetMaxSTDIO 0 = (- 1, 0, [Call_getmaxstdio]) \<and>
   sint (result (run (reporting_crt (- 1)) CGetMaxSTDIO 0)) = - 1 \<and>
   getmaxstdio (reporting_crt 0) 0 = (0, 0) \<and>
   run (reporting_crt 0) CGetMaxSTDIO 0 = (0, 0, [Call_getmaxstdio])"
proof -
  have neg: "getmaxstdio (reporting_crt (- 1)) 0 = (- 1, 0)"
    by (simp add: reporting_crt_def)
  have zero: "getmaxstdio (reporting_crt 0) 0 = (0, 0)"
    by (simp add: reporting_crt_def)
  show ?thesis
    using neg zero
      C6_get_opaque_value [of "reporting_crt (- 1)" 0 "- 1" 0]
      C6_get_opaque_value [of "reporting_crt 0" 0 0 0]
    by (simp add: result_def)
qed

text \<open>
  C7. Each operation is a single delegation: on every runtime and in every state it
  makes exactly one runtime call, the getter for \<open>CGetMaxSTDIO\<close> and the setter for
  \<open>CSetMaxSTDIO\<close>, and the state it leaves is the state that one call leaves: nothing
  is retried and no other state change happens before or after.
\<close>

theorem C7_single_delegation:
  "length (trace (run p CGetMaxSTDIO s)) = 1 \<and>
   final (run p CGetMaxSTDIO s) = snd (perform p Call_getmaxstdio s) \<and>
   length (trace (run p (CSetMaxSTDIO new_max) s)) = 1 \<and>
   final (run p (CSetMaxSTDIO new_max) s) = snd (perform p (Call_setmaxstdio new_max) s)"
  by (simp add: final_def trace_def run_CGetMaxSTDIO run_CSetMaxSTDIO)







end
